theory Spec2Isabelle
  imports Complex_Main "HOL-Library.AList"
begin

section \<open>Prompts and the intensity conversions\<close>

text \<open>
  A prompt is the record built in \<open>PromptDjMidi.handleAddPrompt\<close> and carried by the
  \<open>prompt-changed\<close> event; its fields \<open>text\<close>, \<open>x\<close> and \<open>y\<close> are
  \<open>promptText\<close>, \<open>posX\<close> and \<open>posY\<close> here. A JavaScript number is the
  rational it denotes; \<open>Math.round\<close> is \<open>round\<close>, which is \<open>\<lfloor>q + 1/2\<rfloor>\<close>
  (halves go up, as in JavaScript). Integer-valued numbers (a level, a MIDI value, a CC
  number, an \<open>offsetWidth\<close>) are integers. The conversions between weight, level and
  MIDI value and the drag arithmetic are written with exact operations; the halo scale and
  the background gradients, whose values depend on how binary64 rounds, are computed with
  the rounded operations of the section on binary64 arithmetic.
\<close>

record Prompt =
  promptId :: string
  promptText :: string
  weight :: rat
  cc :: int
  color :: string
  posX :: rat
  posY :: rat

text \<open>The events a \<open>prompt-controller\<close> dispatches, with their \<open>detail\<close>.\<close>

datatype event = PromptChanged Prompt | PromptRemoved string

text \<open>
  The fields of \<open>PromptController\<close>. The listeners it registers are flags: registering and
  removing a listener with the same bound function is idempotent. \<open>dispatched\<close> is the
  sequence of events dispatched so far, oldest first.
\<close>

record PromptController =
  prompt :: Prompt
  filtered :: bool
  learnMode :: bool
  showCC :: bool
  audioLevel :: rat
  isDragging :: bool
  dragStartX :: rat
  dragStartY :: rat
  promptStartX :: rat
  promptStartY :: rat
  hostPointerDown :: bool
  windowPointerMove :: bool
  windowPointerUp :: bool
  bodyDraggingDisc :: bool
  dispatched :: "event list"

text \<open>\<open>get level()\<close>: \<open>Math.round(this.prompt.weight * 2.5)\<close>.\<close>

definition level :: "PromptController \<Rightarrow> int" where
  "level c = round (weight (prompt c) * 2.5)"

definition dispatchPromptChange :: "PromptController \<Rightarrow> PromptController" where
  "dispatchPromptChange c = c\<lparr>dispatched := dispatched c @ [PromptChanged (prompt c)]\<rparr>"

definition dispatchPromptRemoved :: "PromptController \<Rightarrow> PromptController" where
  "dispatchPromptRemoved c =
     c\<lparr>dispatched := dispatched c @ [PromptRemoved (promptId (prompt c))]\<rparr>"

text \<open>\<open>updateLevel\<close>: \<open>this.prompt.weight = newLevel / 2.5\<close>, then the notification.\<close>

definition updateLevel :: "int \<Rightarrow> PromptController \<Rightarrow> PromptController" where
  "updateLevel newLevel c =
     dispatchPromptChange (c\<lparr>prompt := (prompt c)\<lparr>weight := of_int newLevel / 2.5\<rparr>\<rparr>)"

text \<open>
  The \<open>cc-message\<close> listener of \<open>connectedCallback\<close>: \<open>ccToLevel\<close> is its
  \<open>newLevel\<close>, \<open>Math.round((value / 127) * 5)\<close>; a message for another CC number is
  ignored.
\<close>

definition ccToLevel :: "int \<Rightarrow> int" where
  "ccToLevel v = round ((of_int v / 127) * (5::rat))"

definition ccMessage :: "int \<Rightarrow> int \<Rightarrow> PromptController \<Rightarrow> PromptController" where
  "ccMessage v ccNumber c =
     (if ccNumber = cc (prompt c) then updateLevel (ccToLevel v) c else c)"

section \<open>Dragging a prompt\<close>

text \<open>
  What a pointer event carries: the pointer's client coordinates, and whether the event's
  composed path holds an element matching \<open>.remove-btn, .dot\<close>.
\<close>

record PointerEvent =
  clientX :: rat
  clientY :: rat
  onControl :: bool

text \<open>
  The layout the move handler reads from the DOM: the element's own \<open>offsetWidth\<close> and
  \<open>offsetHeight\<close>, and those of \<open>parentElement\<close> when there is one.
\<close>

record Layout =
  offsetWidth :: int
  offsetHeight :: int
  parentElement :: "(int \<times> int) option"

definition connectedCallback :: "PromptController \<Rightarrow> PromptController" where
  "connectedCallback c = c\<lparr>hostPointerDown := True\<rparr>"

definition disconnectedCallback :: "PromptController \<Rightarrow> PromptController" where
  "disconnectedCallback c =
     c\<lparr>hostPointerDown := False, windowPointerMove := False, windowPointerUp := False\<rparr>"

text \<open>\<open>v || 0\<close> on a number.\<close>

definition orZero :: "rat \<Rightarrow> rat" where
  "orZero v = (if v = 0 then 0 else v)"

definition handlePointerDown :: "PointerEvent \<Rightarrow> PromptController \<Rightarrow> PromptController" where
  "handlePointerDown e c =
     (if onControl e then c
      else c\<lparr>isDragging := True,
             dragStartX := clientX e,
             dragStartY := clientY e,
             promptStartX := orZero (posX (prompt c)),
             promptStartY := orZero (posY (prompt c)),
             bodyDraggingDisc := True,
             windowPointerMove := True,
             windowPointerUp := True\<rparr>)"

text \<open>
  \<open>handlePointerMove\<close>. \<open>requestedX\<close> and \<open>requestedY\<close> are the handler's
  \<open>newX\<close> and \<open>newY\<close> before the parent's bounds are applied; \<open>constrain\<close> is
  \<open>Math.max(half, Math.min(v, extent - half))\<close>. The handler dispatches nothing
  (\<open>requestUpdate\<close> only schedules a render).
\<close>

definition requestedX :: "PointerEvent \<Rightarrow> PromptController \<Rightarrow> rat" where
  "requestedX e c = promptStartX c + (clientX e - dragStartX c)"

definition requestedY :: "PointerEvent \<Rightarrow> PromptController \<Rightarrow> rat" where
  "requestedY e c = promptStartY c + (clientY e - dragStartY c)"

definition constrain :: "rat \<Rightarrow> rat \<Rightarrow> rat \<Rightarrow> rat" where
  "constrain half extent v = max half (min v (extent - half))"

definition handlePointerMove ::
  "Layout \<Rightarrow> PointerEvent \<Rightarrow> PromptController \<Rightarrow> PromptController" where
  "handlePointerMove g e c =
     (if \<not> isDragging c then c
      else
        let newX = requestedX e c;
            newY = requestedY e c;
            (newX, newY) =
              (case parentElement g of
                 None \<Rightarrow> (newX, newY)
               | Some (parentWidth, parentHeight) \<Rightarrow>
                   let halfWidth = of_int (offsetWidth g) / 2;
                       halfHeight = of_int (offsetHeight g) / 2
                   in (constrain halfWidth (of_int parentWidth) newX,
                       constrain halfHeight (of_int parentHeight) newY))
        in c\<lparr>prompt := (prompt c)\<lparr>posX := newX, posY := newY\<rparr>\<rparr>)"

definition handlePointerUp :: "PromptController \<Rightarrow> PromptController" where
  "handlePointerUp c =
     (if \<not> isDragging c then c
      else dispatchPromptChange
             (c\<lparr>isDragging := False,
                bodyDraggingDisc := False,
                windowPointerMove := False,
                windowPointerUp := False\<rparr>))"

text \<open>
  What reaches the component: a listener runs only while it is registered, the
  \<open>pointerdown\<close> listener on the host, the other two on \<open>window\<close>.
\<close>

datatype input =
  PointerDown PointerEvent
| PointerMove Layout PointerEvent
| PointerUp
| Disconnect

fun deliver :: "input \<Rightarrow> PromptController \<Rightarrow> PromptController" where
  "deliver (PointerDown e) c = (if hostPointerDown c then handlePointerDown e c else c)"
| "deliver (PointerMove g e) c = (if windowPointerMove c then handlePointerMove g e c else c)"
| "deliver PointerUp c = (if windowPointerUp c then handlePointerUp c else c)"
| "deliver Disconnect c = disconnectedCallback c"

definition run :: "input list \<Rightarrow> PromptController \<Rightarrow> PromptController" where
  "run ins c = fold deliver ins c"

text \<open>A burst of pointer moves, each with the layout it finds.\<close>

fun moves :: "(Layout \<times> PointerEvent) list \<Rightarrow> input list" where
  "moves [] = []"
| "moves ((g, e) # ms) = PointerMove g e # moves ms"

section \<open>Binary64 arithmetic\<close>

text \<open>
  The finite values of JavaScript's numbers are rationals, and each arithmetic operation
  returns the exact result rounded to the nearest binary64 value, ties to the even
  significand. \<open>fl\<close> is that rounding: \<open>binade q\<close> is the exponent \<open>e\<close> with
  \<open>2 ^ e \<le> \<bar>q\<bar> < 2 ^ (e + 1)\<close>, the significand has 53 bits, and below
  \<open>2 ^ - 1022\<close> the spacing stays \<open>2 ^ - 1074\<close> (subnormal numbers). A decimal literal
  of the source denotes \<open>fl\<close> of the decimal. Infinities and NaN are not represented:
  a result of magnitude \<open>2 ^ 1024\<close> or more, which JavaScript turns into an infinity,
  is outside the model.
\<close>

function bitLength :: "int \<Rightarrow> int" where
  "bitLength n = (if n \<le> 0 then 0 else 1 + bitLength (n div 2))"
  by pat_completeness auto
termination
  by (relation "measure nat") auto

declare bitLength.simps [simp del]

definition pow2 :: "int \<Rightarrow> rat" where
  "pow2 k = (if 0 \<le> k then 2 ^ nat k else 1 / 2 ^ nat (- k))"

definition binade :: "rat \<Rightarrow> int" where
  "binade q =
     (let (a, b) = quotient_of \<bar>q\<bar>;
          k = bitLength a - bitLength b
      in if pow2 k \<le> \<bar>q\<bar> then k else k - 1)"

definition roundTiesToEven :: "rat \<Rightarrow> int" where
  "roundTiesToEven m =
     (let f = \<lfloor>m\<rfloor>; r = m - of_int f
      in if r < 1 / 2 then f else if 1 / 2 < r then f + 1 else if even f then f else f + 1)"

definition fl :: "rat \<Rightarrow> rat" where
  "fl q =
     (if q = 0 then 0
      else let e = max (binade q - 52) (- 1074)
           in of_int (roundTiesToEven (q / pow2 e)) * pow2 e)"

definition fadd :: "rat \<Rightarrow> rat \<Rightarrow> rat" where
  "fadd a b = fl (a + b)"

definition fsub :: "rat \<Rightarrow> rat \<Rightarrow> rat" where
  "fsub a b = fl (a - b)"

definition fmul :: "rat \<Rightarrow> rat \<Rightarrow> rat" where
  "fmul a b = fl (a * b)"

definition fdiv :: "rat \<Rightarrow> rat \<Rightarrow> rat" where
  "fdiv a b = fl (a / b)"

section \<open>The level selector\<close>

definition MIN_HALO_SCALE :: rat where
  "MIN_HALO_SCALE = 1"

definition MAX_HALO_SCALE :: rat where
  "MAX_HALO_SCALE = fl 2.2"

definition HALO_LEVEL_MODIFIER :: rat where
  "HALO_LEVEL_MODIFIER = 1"

text \<open>The properties of \<open>level-selector\<close>, and the event it dispatches.\<close>

record LevelSelector =
  lsLevel :: int
  lsColor :: string
  lsAudioLevel :: rat

datatype level_event = LevelChanged int

definition selectLevel :: "int \<Rightarrow> level_event" where
  "selectLevel newLevel = LevelChanged newLevel"

text \<open>
  What \<open>LevelSelector.render\<close> produces: the halo's style (\<open>display\<close>,
  \<open>background\<close> and the factor of \<open>transform: scale(...)\<close>) and, for each of the five
  dots, its angle, whether it is active, and the event its click handler dispatches.
\<close>

record HaloStyle =
  haloDisplay :: string
  haloBackground :: string
  haloScale :: rat

record Dot =
  dotIndex :: int
  dotAngle :: int
  dotActive :: bool
  dotClick :: level_event

record LevelSelectorView =
  halo :: HaloStyle
  dots :: "Dot list"

definition renderScale :: "LevelSelector \<Rightarrow> rat" where
  "renderScale ls =
     (let scale = MIN_HALO_SCALE
      in if lsLevel ls > 0
         then
           let scale = fadd scale
                 (fmul (fdiv (fsub (of_int (lsLevel ls)) 1) 4)
                       (fsub MAX_HALO_SCALE MIN_HALO_SCALE));
               scale = fadd scale (fmul (lsAudioLevel ls) HALO_LEVEL_MODIFIER)
           in scale
         else scale)"

definition renderDot :: "LevelSelector \<Rightarrow> int \<Rightarrow> Dot" where
  "renderDot ls i =
     \<lparr>dotIndex = i,
      dotAngle = -150 + (i - 1) * 30,
      dotActive = (lsLevel ls \<ge> i),
      dotClick = selectLevel (if lsLevel ls = i then 0 else i)\<rparr>"

definition LevelSelector_render :: "LevelSelector \<Rightarrow> LevelSelectorView" where
  "LevelSelector_render ls =
     \<lparr>halo = \<lparr>haloDisplay = (if lsLevel ls > 0 then ''block'' else ''none''),
               haloBackground = lsColor ls,
               haloScale = renderScale ls\<rparr>,
      dots = map (renderDot ls) [1, 2, 3, 4, 5]\<rparr>"

text \<open>
  The \<open>level-selector\<close> that \<open>PromptController.render\<close> instantiates, and the
  \<open>level-changed\<close> handler it binds.
\<close>

definition PromptController_render :: "PromptController \<Rightarrow> LevelSelector" where
  "PromptController_render c =
     \<lparr>lsLevel = level c,
      lsColor = (if filtered c then ''#888'' else color (prompt c)),
      lsAudioLevel = (if filtered c then 0 else audioLevel c)\<rparr>"

definition levelChanged :: "level_event \<Rightarrow> PromptController \<Rightarrow> PromptController" where
  "levelChanged ev c = (case ev of LevelChanged detail \<Rightarrow> updateLevel detail c)"

section \<open>The prompt collection\<close>

text \<open>
  \<open>PromptDjMidi\<close>. Its \<open>Map\<close> of prompts is an association list in insertion order:
  \<open>Map.set\<close> is \<open>AList.update\<close> (an existing key keeps its place, a new one goes to the
  end) and \<open>Map.delete\<close> is \<open>AList.delete\<close>. The static \<open>nextCC\<close> is a field of the
  state. \<open>djDispatched\<close> holds the \<open>prompts-changed\<close> events dispatched so far, each with
  its copy of the map.
\<close>

record DefaultPrompt =
  dpColor :: string
  dpText :: string

datatype dj_event = PromptsChanged "(string \<times> Prompt) list"

record PromptDjMidi =
  prompts :: "(string \<times> Prompt) list"
  allPrompts :: "DefaultPrompt list"
  availablePrompts :: "DefaultPrompt list"
  nextCC :: int
  djDispatched :: "dj_event list"

definition has :: "string \<Rightarrow> (string \<times> Prompt) list \<Rightarrow> bool" where
  "has k m = (map_of m k \<noteq> None)"

definition getAvailablePrompts :: "PromptDjMidi \<Rightarrow> DefaultPrompt list" where
  "getAvailablePrompts s = filter (\<lambda>p. \<not> has (dpText p) (prompts s)) (allPrompts s)"

text \<open>
  The constructor, in a freshly loaded module: the static counter still has its
  initialiser's value.
\<close>

definition PromptDjMidi_new ::
  "(string \<times> Prompt) list \<Rightarrow> DefaultPrompt list \<Rightarrow> PromptDjMidi" where
  "PromptDjMidi_new initialPrompts allPs =
     (let s = \<lparr>prompts = initialPrompts, allPrompts = allPs, availablePrompts = [],
               nextCC = 0, djDispatched = []\<rparr>
      in s\<lparr>availablePrompts := getAvailablePrompts s\<rparr>)"

definition dispatchPromptsChanged :: "PromptDjMidi \<Rightarrow> PromptDjMidi" where
  "dispatchPromptsChanged s = s\<lparr>djDispatched := djDispatched s @ [PromptsChanged (prompts s)]\<rparr>"

definition handlePromptChanged :: "Prompt \<Rightarrow> PromptDjMidi \<Rightarrow> PromptDjMidi" where
  "handlePromptChanged updatedPrompt s =
     dispatchPromptsChanged
       (s\<lparr>prompts := AList.update (promptId updatedPrompt) updatedPrompt (prompts s)\<rparr>)"

definition handlePromptRemoved :: "string \<Rightarrow> PromptDjMidi \<Rightarrow> PromptDjMidi" where
  "handlePromptRemoved promptIdToRemove s =
     (let s1 = s\<lparr>prompts := AList.delete promptIdToRemove (prompts s)\<rparr>;
          s2 = s1\<lparr>availablePrompts := getAvailablePrompts s1\<rparr>
      in dispatchPromptsChanged s2)"

text \<open>
  \<open>handleAddPrompt\<close>. \<open>txt\<close> is \<open>promptSelect.value\<close>; \<open>w\<close> and \<open>h\<close> are the
  \<open>offsetWidth\<close> and \<open>offsetHeight\<close> of the soundscape element.
\<close>

definition handleAddPrompt :: "string \<Rightarrow> int \<Rightarrow> int \<Rightarrow> PromptDjMidi \<Rightarrow> PromptDjMidi" where
  "handleAddPrompt txt w h s =
     (if txt = [] \<or> has txt (prompts s) then s
      else
        case find (\<lambda>p. dpText p = txt) (allPrompts s) of
          None \<Rightarrow> s
        | Some defaultPrompt \<Rightarrow>
            let newPrompt =
                  \<lparr>promptId = txt, promptText = txt, weight = 0, cc = nextCC s,
                   color = dpColor defaultPrompt,
                   posX = of_int w / 2, posY = of_int h / 2\<rparr>;
                s1 = s\<lparr>nextCC := nextCC s + 1\<rparr>;
                s2 = s1\<lparr>prompts := AList.update (promptId newPrompt) newPrompt (prompts s1)\<rparr>;
                s3 = s2\<lparr>availablePrompts := getAvailablePrompts s2\<rparr>
            in dispatchPromptsChanged s3)"

section \<open>The background\<close>

text \<open>
  \<open>Number.toString(16)\<close> on an integer, and \<open>padStart(2, '0')\<close>.
\<close>

definition hexDigit :: "nat \<Rightarrow> char" where
  "hexDigit d = ''0123456789abcdef'' ! d"

fun hexNat :: "nat \<Rightarrow> string" where
  "hexNat n = (if n < 16 then [hexDigit n] else hexNat (n div 16) @ [hexDigit (n mod 16)])"

declare hexNat.simps [simp del]

definition toString16 :: "int \<Rightarrow> string" where
  "toString16 i = (if i < 0 then CHR ''-'' # hexNat (nat (- i)) else hexNat (nat i))"

definition padStart2 :: "string \<Rightarrow> string" where
  "padStart2 s = replicate (2 - length s) CHR ''0'' @ s"

text \<open>
  The function that \<open>makeBackground\<close> throttles. One gradient is described by the values
  its template interpolates: the centre \<open>x\<close>, \<open>y\<close> (per cent), the colour, the two
  hexadecimal alpha digits, and the \<open>vmax\<close> figure \<open>stop * 40\<close>. The two
  \<open>Math.random()\<close> results of each gradient are read, in call order, from \<open>rnd\<close>.
\<close>

record Gradient =
  gradX :: rat
  gradY :: rat
  gradColor :: string
  gradAlpha :: string
  gradStop40 :: rat

definition alphaPct :: "Prompt \<Rightarrow> rat" where
  "alphaPct p = fmul (min (weight p) 1) (fl 0.4)"

definition alpha :: "Prompt \<Rightarrow> string" where
  "alpha p = padStart2 (toString16 (round (fmul (alphaPct p) 255)))"

definition gradient :: "rat \<Rightarrow> rat \<Rightarrow> Prompt \<Rightarrow> Gradient" where
  "gradient r1 r2 p =
     (let stop = fdiv (weight p) 2;
          x = fadd 20 (fmul r1 60);
          y = fadd 20 (fmul r2 60)
      in \<lparr>gradX = x, gradY = y, gradColor = color p, gradAlpha = alpha p,
          gradStop40 = fmul stop 40\<rparr>)"

fun gradients :: "(nat \<Rightarrow> rat) \<Rightarrow> nat \<Rightarrow> Prompt list \<Rightarrow> Gradient list" where
  "gradients rnd n [] = []"
| "gradients rnd n (p # ps) = gradient (rnd n) (rnd (n + 1)) p # gradients rnd (n + 2) ps"

definition makeBackground :: "(nat \<Rightarrow> rat) \<Rightarrow> PromptDjMidi \<Rightarrow> Gradient list" where
  "makeBackground rnd s =
     (let activePrompts = filter (\<lambda>p. weight p > 0) (map snd (prompts s))
      in gradients rnd 0 activePrompts)"

section \<open>Sample inputs\<close>

text \<open>Concrete states and events at which the results below are instantiated.\<close>

definition sampleController :: PromptController where
  "sampleController = \<lparr>prompt = \<lparr>promptId = ''Bass'', promptText = ''Bass'', weight = 1.2,
       cc = 0, color = ''#9900ff'', posX = 500, posY = 500\<rparr>, filtered = True,
     learnMode = False, showCC = False, audioLevel = 0.9, isDragging = True, dragStartX = 0,
     dragStartY = 0, promptStartX = 500, promptStartY = 500, hostPointerDown = True,
     windowPointerMove = True, windowPointerUp = True, bodyDraggingDisc = True,
     dispatched = []\<rparr>"

definition sampleLayout :: Layout where
  "sampleLayout = \<lparr>offsetWidth = 100, offsetHeight = 100, parentElement = Some (1000, 1000)\<rparr>"

definition narrowLayout :: Layout where
  "narrowLayout = \<lparr>offsetWidth = 300, offsetHeight = 300, parentElement = Some (100, 100)\<rparr>"

definition sampleMove :: PointerEvent where
  "sampleMove = \<lparr>clientX = 4500, clientY = 4500, onControl = False\<rparr>"

definition sampleMoveBack :: PointerEvent where
  "sampleMoveBack = \<lparr>clientX = -700, clientY = -700, onControl = False\<rparr>"

definition samplePalette :: "DefaultPrompt list" where
  "samplePalette = [\<lparr>dpColor = ''#9900ff'', dpText = ''Bass''\<rparr>,
                    \<lparr>dpColor = ''#5200ff'', dpText = ''Rain''\<rparr>]"

text \<open>A collection constructed with one prompt already in it, and one grown by an add.\<close>

definition seededCollection :: PromptDjMidi where
  "seededCollection = PromptDjMidi_new [(''Bass'', prompt sampleController)] samplePalette"

definition grownCollection :: PromptDjMidi where
  "grownCollection = handleAddPrompt ''Bass'' 1000 600 (PromptDjMidi_new [] samplePalette)"

text \<open>
  A filtered prompt at weight 1.2 with audio level 0.9 (both as binary64 values), and a
  collection holding prompts of weight 1, 0 and 2.
\<close>

definition filteredController :: PromptController where
  "filteredController =
     sampleController\<lparr>prompt := (prompt sampleController)
                         \<lparr>weight := 5404319552844595 / 4503599627370496\<rparr>,
                       filtered := True,
                       audioLevel := 8106479329266893 / 9007199254740992\<rparr>"

definition weightedCollection :: PromptDjMidi where
  "weightedCollection =
     grownCollection\<lparr>prompts :=
       [(''Bass'', (prompt sampleController)\<lparr>weight := 1\<rparr>),
        (''Rain'', (prompt sampleController)\<lparr>promptId := ''Rain'', promptText := ''Rain'',
                     cc := 1, color := ''#5200ff'', weight := 0\<rparr>),
        (''Drums'', (prompt sampleController)\<lparr>promptId := ''Drums'', promptText := ''Drums'',
                      cc := 2, color := ''#ff25f6'', weight := 2\<rparr>)]\<rparr>"

section \<open>Level and weight\<close>

lemma level_updateLevel: "level (updateLevel l c) = round (of_int l / 2.5 * (2.5::rat))"
  by (simp add: level_def updateLevel_def dispatchPromptChange_def)

text \<open>
  C1. For every level in 0..5, the weight that \<open>updateLevel\<close> stores for it
  (level / 2.5) is read back by the \<open>level\<close> getter (round (weight * 2.5)) as the same
  level.
\<close>

theorem level_roundtrip:
  "\<forall>l \<in> {0..5}. level (updateLevel l c) = l"
  by (simp add: level_updateLevel)

theorem level_roundtrip_witness:
  "(3::int) \<in> {0..5} \<and> level (updateLevel 3 sampleController) = 3"
  using level_roundtrip [of sampleController] by simp

text \<open>
  The read-back does not hinge on the arithmetic being exact: every weight within 0.2 of
  level / 2.5 has that level.
\<close>

lemma level_of_nearby_weight:
  assumes "\<bar>weight (prompt c) - of_int l / 2.5\<bar> < 1 / 5"
  shows "level c = l"
proof -
  let ?w = "weight (prompt c)"
  have e: "of_int l / (2.5::rat) = of_int l * (2 / 5)" by simp
  have "\<bar>?w - of_int l * (2 / 5)\<bar> < 1 / 5"
    using assms by (simp only: e)
  then have "of_int l > ?w * (5 / 2) - 1 / 2" and "of_int l \<le> ?w * (5 / 2) + 1 / 2"
    by linarith+
  then have "round (?w * (5 / 2)) = l" by (rule round_unique)
  then show ?thesis by (simp add: level_def)
qed

section \<open>MIDI value to level\<close>

lemma ccToLevel_bounds:
  assumes "0 \<le> v" "v \<le> 127"
  shows "0 \<le> ccToLevel v \<and> ccToLevel v \<le> 5"
proof -
  let ?q = "(of_int v / 127) * (5::rat)"
  have lo: "(0::rat) \<le> ?q" using assms by simp
  have hi: "?q \<le> 5" using assms by simp
  have "round (0::rat) \<le> round ?q" using lo by (rule round_mono)
  moreover have "round ?q \<le> round (5::rat)" using hi by (rule round_mono)
  ultimately show ?thesis by (simp add: ccToLevel_def)
qed

text \<open>
  C7. \<open>ccToLevel v = round ((v / 127) * 5)\<close> sends every MIDI value in 0..127 to a level
  in 0..5, with \<open>ccToLevel 0 = 0\<close> and \<open>ccToLevel 127 = 5\<close>.
\<close>

theorem ccToLevel_range:
  "(\<forall>v \<in> {0..127}. ccToLevel v \<in> {0..5}) \<and> ccToLevel 0 = 0 \<and> ccToLevel 127 = 5"
proof -
  have "\<forall>v \<in> {0..127}. ccToLevel v \<in> {0..5}"
    using ccToLevel_bounds by simp
  moreover have "ccToLevel 0 = 0" by (simp add: ccToLevel_def)
  moreover have "ccToLevel 127 = 5" by (simp add: ccToLevel_def)
  ultimately show ?thesis by blast
qed

theorem ccToLevel_range_witness:
  "(64::int) \<in> {0..127} \<and> ccToLevel 64 \<in> {0..5}"
  using ccToLevel_range by simp

section \<open>The drag constraint\<close>

lemma constrain_bounds:
  "half \<le> extent - half \<Longrightarrow> half \<le> constrain half extent v \<and> constrain half extent v \<le> extent - half"
  by (simp add: constrain_def)

lemma constrain_pins: "extent - half < half \<Longrightarrow> constrain half extent v = half"
  by (simp add: constrain_def)

lemma handlePointerMove_posX:
  "isDragging c \<Longrightarrow> parentElement g = Some (pw, ph) \<Longrightarrow>
   posX (prompt (handlePointerMove g e c)) =
     constrain (of_int (offsetWidth g) / 2) (of_int pw) (requestedX e c)"
  by (simp add: handlePointerMove_def Let_def)

lemma handlePointerMove_posY:
  "isDragging c \<Longrightarrow> parentElement g = Some (pw, ph) \<Longrightarrow>
   posY (prompt (handlePointerMove g e c)) =
     constrain (of_int (offsetHeight g) / 2) (of_int ph) (requestedY e c)"
  by (simp add: handlePointerMove_def Let_def)

lemma handlePointerMove_bounds:
  assumes "isDragging c" "parentElement g = Some (pw, ph)"
    "of_int (offsetWidth g) / 2 \<le> of_int pw / (2::rat)"
    "of_int (offsetHeight g) / 2 \<le> of_int ph / (2::rat)"
  shows "of_int (offsetWidth g) / 2 \<le> posX (prompt (handlePointerMove g e c)) \<and>
         posX (prompt (handlePointerMove g e c)) \<le> of_int pw - of_int (offsetWidth g) / 2 \<and>
         of_int (offsetHeight g) / 2 \<le> posY (prompt (handlePointerMove g e c)) \<and>
         posY (prompt (handlePointerMove g e c)) \<le> of_int ph - of_int (offsetHeight g) / 2"
proof -
  have x: "of_int (offsetWidth g) / 2 \<le> (of_int pw :: rat) - of_int (offsetWidth g) / 2"
    using assms(3) by (simp add: field_simps)
  have y: "of_int (offsetHeight g) / 2 \<le> (of_int ph :: rat) - of_int (offsetHeight g) / 2"
    using assms(4) by (simp add: field_simps)
  show ?thesis
    using constrain_bounds [OF x, of "requestedX e c"] constrain_bounds [OF y, of "requestedY e c"]
    by (simp add: handlePointerMove_posX [OF assms(1,2)] handlePointerMove_posY [OF assms(1,2)])
qed

lemma handlePointerMove_scenario:
  assumes "isDragging c" "offsetWidth g = 100" "offsetHeight g = 100"
    "parentElement g = Some (1000, 1000)"
  shows "requestedX e c = 5000 \<Longrightarrow> posX (prompt (handlePointerMove g e c)) = 950"
    and "requestedY e c = 5000 \<Longrightarrow> posY (prompt (handlePointerMove g e c)) = 950"
    and "requestedX e c = -200 \<Longrightarrow> posX (prompt (handlePointerMove g e c)) = 50"
    and "requestedY e c = -200 \<Longrightarrow> posY (prompt (handlePointerMove g e c)) = 50"
  using assms
  by (simp_all add: handlePointerMove_posX [OF assms(1,4)] handlePointerMove_posY [OF assms(1,4)] constrain_def)

text \<open>
  C3. During a drag inside a parent, when the element's half-extents do not exceed half the
  parent's extents, the position stored by \<open>handlePointerMove\<close> satisfies
  halfWidth \<le> x \<le> parentWidth - halfWidth and halfHeight \<le> y \<le> parentHeight - halfHeight,
  whatever position was requested. With a 1000 by 1000 parent and half-extent 50, a
  request of (5000, 5000) is stored as (950, 950) and a request of (-200, -200) as
  (50, 50).
\<close>

theorem drag_position_within_parent:
  assumes "isDragging c" and "parentElement g = Some (pw, ph)"
  shows
    "(of_int (offsetWidth g) / 2 \<le> of_int pw / (2::rat) \<and>
      of_int (offsetHeight g) / 2 \<le> of_int ph / (2::rat) \<longrightarrow>
        of_int (offsetWidth g) / 2 \<le> posX (prompt (handlePointerMove g e c)) \<and>
        posX (prompt (handlePointerMove g e c)) \<le> of_int pw - of_int (offsetWidth g) / 2 \<and>
        of_int (offsetHeight g) / 2 \<le> posY (prompt (handlePointerMove g e c)) \<and>
        posY (prompt (handlePointerMove g e c)) \<le> of_int ph - of_int (offsetHeight g) / 2) \<and>
     (offsetWidth g = 100 \<and> offsetHeight g = 100 \<and> pw = 1000 \<and> ph = 1000 \<and>
      requestedX e c = 5000 \<and> requestedY e c = 5000 \<longrightarrow>
        posX (prompt (handlePointerMove g e c)) = 950 \<and>
        posY (prompt (handlePointerMove g e c)) = 950) \<and>
     (offsetWidth g = 100 \<and> offsetHeight g = 100 \<and> pw = 1000 \<and> ph = 1000 \<and>
      requestedX e c = -200 \<and> requestedY e c = -200 \<longrightarrow>
        posX (prompt (handlePointerMove g e c)) = 50 \<and>
        posY (prompt (handlePointerMove g e c)) = 50)"
proof (intro conjI impI)
  assume h: "of_int (offsetWidth g) / 2 \<le> of_int pw / (2::rat) \<and>
      of_int (offsetHeight g) / 2 \<le> of_int ph / (2::rat)"
  note b = handlePointerMove_bounds [OF assms conjunct1 [OF h] conjunct2 [OF h], of e]
  show "of_int (offsetWidth g) / 2 \<le> posX (prompt (handlePointerMove g e c))"
    using b by blast
  show "posX (prompt (handlePointerMove g e c)) \<le> of_int pw - of_int (offsetWidth g) / 2"
    using b by blast
  show "of_int (offsetHeight g) / 2 \<le> posY (prompt (handlePointerMove g e c))"
    using b by blast
  show "posY (prompt (handlePointerMove g e c)) \<le> of_int ph - of_int (offsetHeight g) / 2"
    using b by blast
next
  assume h: "offsetWidth g = 100 \<and> offsetHeight g = 100 \<and> pw = 1000 \<and> ph = 1000 \<and>
      requestedX e c = 5000 \<and> requestedY e c = 5000"
  then have p: "parentElement g = Some (1000, 1000)" using assms(2) by simp
  show "posX (prompt (handlePointerMove g e c)) = 950"
    using h handlePointerMove_scenario(1) [OF assms(1) _ _ p] by blast
  show "posY (prompt (handlePointerMove g e c)) = 950"
    using h handlePointerMove_scenario(2) [OF assms(1) _ _ p] by blast
next
  assume h: "offsetWidth g = 100 \<and> offsetHeight g = 100 \<and> pw = 1000 \<and> ph = 1000 \<and>
      requestedX e c = -200 \<and> requestedY e c = -200"
  then have p: "parentElement g = Some (1000, 1000)" using assms(2) by simp
  show "posX (prompt (handlePointerMove g e c)) = 50"
    using h handlePointerMove_scenario(3) [OF assms(1) _ _ p] by blast
  show "posY (prompt (handlePointerMove g e c)) = 50"
    using h handlePointerMove_scenario(4) [OF assms(1) _ _ p] by blast
qed

theorem drag_position_within_parent_witness:
  "isDragging sampleController \<and> parentElement sampleLayout = Some (1000, 1000) \<and>
   of_int (offsetWidth sampleLayout) / 2 \<le> of_int 1000 / (2::rat) \<and>
   of_int (offsetHeight sampleLayout) / 2 \<le> of_int 1000 / (2::rat) \<and>
   requestedX sampleMove sampleController = 5000 \<and>
   requestedY sampleMove sampleController = 5000 \<and>
   requestedX sampleMoveBack sampleController = -200 \<and>
   requestedY sampleMoveBack sampleController = -200 \<and>
   posX (prompt (handlePointerMove sampleLayout sampleMove sampleController)) = 950 \<and>
   posY (prompt (handlePointerMove sampleLayout sampleMove sampleController)) = 950 \<and>
   posX (prompt (handlePointerMove sampleLayout sampleMoveBack sampleController)) = 50 \<and>
   posY (prompt (handlePointerMove sampleLayout sampleMoveBack sampleController)) = 50"
proof -
  have d: "isDragging sampleController" by (simp add: sampleController_def)
  have p: "parentElement sampleLayout = Some (1000, 1000)" by (simp add: sampleLayout_def)
  show ?thesis
    using drag_position_within_parent [OF d p, of sampleMove]
      drag_position_within_parent [OF d p, of sampleMoveBack]
    by (simp add: sampleController_def sampleLayout_def sampleMove_def sampleMoveBack_def
        requestedX_def requestedY_def)
qed

text \<open>
  C2, as stated, fails: with a parent 100 wide and an element 300 wide (half-extent 150,
  greater than the parent's extent) the stored x is 150, not the parent's midpoint 50.
\<close>

theorem narrow_parent_counterexample:
  "isDragging sampleController \<and> parentElement narrowLayout = Some (100, 100) \<and>
   of_int (offsetWidth narrowLayout) / 2 > (of_int 100 :: rat) \<and>
   posX (prompt (handlePointerMove narrowLayout sampleMoveBack sampleController)) = 150 \<and>
   posX (prompt (handlePointerMove narrowLayout sampleMoveBack sampleController))
     \<noteq> of_int 100 / 2"
  by (simp add: handlePointerMove_def sampleController_def narrowLayout_def sampleMoveBack_def
      requestedX_def requestedY_def constrain_def)

text \<open>
  C2, amended. When the parent is narrower than the element on an axis (in particular when
  the element's half-extent exceeds the parent's extent), \<open>handlePointerMove\<close> stores
  the element's own half-extent on that axis, whatever position was requested.
\<close>

theorem narrow_parent_pins_to_half_extent:
  assumes "isDragging c" and "parentElement g = Some (pw, ph)"
  shows
    "(pw < offsetWidth g \<longrightarrow>
        posX (prompt (handlePointerMove g e c)) = of_int (offsetWidth g) / 2) \<and>
     (ph < offsetHeight g \<longrightarrow>
        posY (prompt (handlePointerMove g e c)) = of_int (offsetHeight g) / 2)"
proof (intro conjI impI)
  assume "pw < offsetWidth g"
  then have "(of_int pw :: rat) < of_int (offsetWidth g)" by simp
  then have "(of_int pw :: rat) - of_int (offsetWidth g) / 2 < of_int (offsetWidth g) / 2"
    by (simp add: field_simps)
  then show "posX (prompt (handlePointerMove g e c)) = of_int (offsetWidth g) / 2"
    by (simp add: handlePointerMove_posX [OF assms] constrain_pins)
next
  assume "ph < offsetHeight g"
  then have "(of_int ph :: rat) < of_int (offsetHeight g)" by simp
  then have "(of_int ph :: rat) - of_int (offsetHeight g) / 2 < of_int (offsetHeight g) / 2"
    by (simp add: field_simps)
  then show "posY (prompt (handlePointerMove g e c)) = of_int (offsetHeight g) / 2"
    by (simp add: handlePointerMove_posY [OF assms] constrain_pins)
qed

theorem narrow_parent_pins_to_half_extent_witness:
  "isDragging sampleController \<and> parentElement narrowLayout = Some (100, 100) \<and>
   100 < offsetWidth narrowLayout \<and> 100 < offsetHeight narrowLayout \<and>
   posX (prompt (handlePointerMove narrowLayout sampleMove sampleController)) = 150 \<and>
   posY (prompt (handlePointerMove narrowLayout sampleMove sampleController)) = 150"
proof -
  have d: "isDragging sampleController" by (simp add: sampleController_def)
  have p: "parentElement narrowLayout = Some (100, 100)" by (simp add: narrowLayout_def)
  show ?thesis
    using narrow_parent_pins_to_half_extent [OF d p, of sampleMove]
    by (simp add: sampleController_def narrowLayout_def)
qed

section \<open>Halo and level selector\<close>

lemma halo_of_render:
  "haloScale (halo (LevelSelector_render ls)) = renderScale ls"
  "haloDisplay (halo (LevelSelector_render ls)) = (if lsLevel ls > 0 then ''block'' else ''none'')"
  by (simp_all add: LevelSelector_render_def)

lemma render_of_controller:
  "lsLevel (PromptController_render c) = level c"
  "lsAudioLevel (PromptController_render c) = (if filtered c then 0 else audioLevel c)"
  by (simp_all add: PromptController_render_def)

lemma halo_span: "fsub MAX_HALO_SCALE MIN_HALO_SCALE = 5404319552844596 / 4503599627370496"
  unfolding MAX_HALO_SCALE_def MIN_HALO_SCALE_def by code_simp

lemma fl_12: "fl 1.2 = 5404319552844595 / 4503599627370496"
  by code_simp

lemma renderScale_zero: "lsLevel ls = 0 \<Longrightarrow> renderScale ls = 1"
  by (simp add: renderScale_def MIN_HALO_SCALE_def)

lemma renderScale_pos:
  "1 \<le> lsLevel ls \<Longrightarrow>
   renderScale ls =
     fadd (fadd 1 (fmul (fdiv (fsub (of_int (lsLevel ls)) 1) 4)
                        (5404319552844596 / 4503599627370496)))
          (fmul (lsAudioLevel ls) 1)"
  by (simp add: renderScale_def Let_def halo_span HALO_LEVEL_MODIFIER_def)
     (simp add: MIN_HALO_SCALE_def)

lemma renderScale_pos_raw:
  "1 \<le> lsLevel ls \<Longrightarrow>
   renderScale ls =
     fadd (fadd 1 (fmul (fdiv (fsub (of_int (lsLevel ls)) 1) 4) (fsub (fl 2.2) 1)))
          (fmul (lsAudioLevel ls) 1)"
  unfolding renderScale_def MIN_HALO_SCALE_def MAX_HALO_SCALE_def HALO_LEVEL_MODIFIER_def Let_def
  by simp

lemma scale_levels:
  "fadd (fadd 1 (fmul (fdiv (fsub 1 1) 4) (5404319552844596 / 4503599627370496))) (fmul 0 1) = 1"
  "fadd (fadd 1 (fmul (fdiv (fsub 2 1) 4) (5404319552844596 / 4503599627370496))) (fmul 0 1) = fl 1.3"
  "fadd (fadd 1 (fmul (fdiv (fsub 3 1) 4) (5404319552844596 / 4503599627370496))) (fmul 0 1) = fl 1.6"
  "fadd (fadd 1 (fmul (fdiv (fsub 4 1) 4) (5404319552844596 / 4503599627370496))) (fmul 0 1)
     = fl 1.9000000000000001"
  "fadd (fadd 1 (fmul (fdiv (fsub 5 1) 4) (5404319552844596 / 4503599627370496))) (fmul 0 1) = fl 2.2"
  by code_simp+

lemma scale_level4:
  "fl 1.9000000000000001 = 8556839292003943 / 4503599627370496"
  "fl 1.9 = 8556839292003942 / 4503599627370496"
  "fadd (fadd 1 (fmul (fdiv (fsub 4 1) 4) (fl 1.2))) (fmul 0 1) = fl 1.9"
  by code_simp+


lemma halo_scale_level1:
  assumes "lsAudioLevel ls = 0" "lsLevel ls = 1"
  shows "haloScale (halo (LevelSelector_render ls)) = 1"
proof -
  have "renderScale ls
        = fadd (fadd 1 (fmul (fdiv (fsub 1 1) 4) (5404319552844596 / 4503599627370496)))
               (fmul 0 1)"
    using assms by (simp add: renderScale_pos)
  then show ?thesis
    by (simp only: halo_of_render scale_levels)
qed

lemma halo_scale_level2:
  assumes "lsAudioLevel ls = 0" "lsLevel ls = 2"
  shows "haloScale (halo (LevelSelector_render ls)) = fl 1.3"
proof -
  have "renderScale ls
        = fadd (fadd 1 (fmul (fdiv (fsub 2 1) 4) (5404319552844596 / 4503599627370496)))
               (fmul 0 1)"
    using assms by (simp add: renderScale_pos)
  then show ?thesis
    by (simp only: halo_of_render scale_levels)
qed

lemma halo_scale_level3:
  assumes "lsAudioLevel ls = 0" "lsLevel ls = 3"
  shows "haloScale (halo (LevelSelector_render ls)) = fl 1.6"
proof -
  have "renderScale ls
        = fadd (fadd 1 (fmul (fdiv (fsub 3 1) 4) (5404319552844596 / 4503599627370496)))
               (fmul 0 1)"
    using assms by (simp add: renderScale_pos)
  then show ?thesis
    by (simp only: halo_of_render scale_levels)
qed

lemma halo_scale_level4:
  assumes "lsAudioLevel ls = 0" "lsLevel ls = 4"
  shows "haloScale (halo (LevelSelector_render ls)) = fl 1.9000000000000001"
proof -
  have "renderScale ls
        = fadd (fadd 1 (fmul (fdiv (fsub 4 1) 4) (5404319552844596 / 4503599627370496)))
               (fmul 0 1)"
    using assms by (simp add: renderScale_pos)
  then show ?thesis
    by (simp only: halo_of_render scale_levels)
qed

lemma halo_scale_level5:
  assumes "lsAudioLevel ls = 0" "lsLevel ls = 5"
  shows "haloScale (halo (LevelSelector_render ls)) = fl 2.2"
proof -
  have "renderScale ls
        = fadd (fadd 1 (fmul (fdiv (fsub 5 1) 4) (5404319552844596 / 4503599627370496)))
               (fmul 0 1)"
    using assms by (simp add: renderScale_pos)
  then show ?thesis
    by (simp only: halo_of_render scale_levels)
qed

lemma fl_16: "fl 1.6 = 7205759403792794 / 4503599627370496"
  by code_simp

lemma level_filteredController: "level filteredController = 3"
  by code_simp

lemma filteredController_fields:
  "filtered filteredController"
  "audioLevel filteredController = 8106479329266893 / 9007199254740992"
  by (simp_all add: filteredController_def)

text \<open>
  C4, as stated, fails at level 4. The source adds ((level - 1) / 4) * (2.2 - 1), and in
  binary64 2.2 - 1 is 1.2000000000000002, not 1.2: at level 4 with audio level 0 the scale
  is 1.9000000000000001, whereas 1 + (3 / 4) * 1.2 + 0 * 1 is 1.9, evaluated exactly or in
  binary64.
\<close>

theorem halo_scale_level4_counterexample:
  "1 \<le> lsLevel \<lparr>lsLevel = 4, lsColor = ''#9900ff'', lsAudioLevel = 0\<rparr> \<and>
   haloScale (halo (LevelSelector_render \<lparr>lsLevel = 4, lsColor = ''#9900ff'', lsAudioLevel = 0\<rparr>))
     = 8556839292003943 / 4503599627370496 \<and>
   fadd (fadd 1 (fmul (fdiv (fsub 4 1) 4) (fl 1.2))) (fmul 0 1)
     = 8556839292003942 / 4503599627370496 \<and>
   haloScale (halo (LevelSelector_render \<lparr>lsLevel = 4, lsColor = ''#9900ff'', lsAudioLevel = 0\<rparr>))
     \<noteq> fadd (fadd 1 (fmul (fdiv (fsub 4 1) 4) (fl 1.2))) (fmul 0 1) \<and>
   haloScale (halo (LevelSelector_render \<lparr>lsLevel = 4, lsColor = ''#9900ff'', lsAudioLevel = 0\<rparr>))
     \<noteq> 1 + ((4 - 1) / 4) * 1.2 + 0 * 1"
proof -
  let ?ls = "\<lparr>lsLevel = 4, lsColor = ''#9900ff'', lsAudioLevel = 0\<rparr>"
  have "renderScale ?ls
        = fadd (fadd 1 (fmul (fdiv (fsub 4 1) 4) (5404319552844596 / 4503599627370496)))
               (fmul 0 1)"
    by (simp add: renderScale_pos)
  then have v: "haloScale (halo (LevelSelector_render ?ls)) = 8556839292003943 / 4503599627370496"
    by (simp only: halo_of_render scale_levels scale_level4)
  have w: "fadd (fadd 1 (fmul (fdiv (fsub 4 1) 4) (fl 1.2))) (fmul 0 1)
             = 8556839292003942 / 4503599627370496"
    by (simp only: scale_level4)
  show ?thesis
    unfolding v w by simp
qed

text \<open>
  C4, amended. At level 0 the halo scale is 1 and the halo is hidden
  (\<open>display: none\<close>). At every level \<ge> 1 the halo is shown and the scale is
  (1 + ((level - 1) / 4) * (2.2 - 1)) + audioLevel * 1 evaluated in binary64, where
  2.2 - 1 is 1.2000000000000002 and not 1.2; with audio level 0 that is 1, 1.3, 1.6,
  1.9000000000000001 and 2.2 at levels 1 to 5. A filtered prompt hands audio level 0 to
  its level selector whatever its own \<open>audioLevel\<close> is (an unfiltered one hands its
  own), so a filtered prompt at level 3 has scale 1.6.
\<close>

theorem halo_scale:
  "(lsLevel ls = 0 \<longrightarrow>
      haloScale (halo (LevelSelector_render ls)) = 1 \<and>
      haloDisplay (halo (LevelSelector_render ls)) = ''none'') \<and>
   (1 \<le> lsLevel ls \<longrightarrow>
      haloScale (halo (LevelSelector_render ls))
        = fadd (fadd 1 (fmul (fdiv (fsub (of_int (lsLevel ls)) 1) 4) (fsub (fl 2.2) 1)))
               (fmul (lsAudioLevel ls) 1) \<and>
      haloDisplay (halo (LevelSelector_render ls)) = ''block'') \<and>
   fsub (fl 2.2) 1 = 5404319552844596 / 4503599627370496 \<and>
   fl 1.2 = 5404319552844595 / 4503599627370496 \<and>
   (lsAudioLevel ls = 0 \<longrightarrow>
      (lsLevel ls = 1 \<longrightarrow> haloScale (halo (LevelSelector_render ls)) = 1) \<and>
      (lsLevel ls = 2 \<longrightarrow> haloScale (halo (LevelSelector_render ls)) = fl 1.3) \<and>
      (lsLevel ls = 3 \<longrightarrow> haloScale (halo (LevelSelector_render ls)) = fl 1.6) \<and>
      (lsLevel ls = 4 \<longrightarrow>
         haloScale (halo (LevelSelector_render ls)) = fl 1.9000000000000001) \<and>
      (lsLevel ls = 5 \<longrightarrow> haloScale (halo (LevelSelector_render ls)) = fl 2.2)) \<and>
   (filtered c \<longrightarrow> lsAudioLevel (PromptController_render c) = 0) \<and>
   (\<not> filtered c \<longrightarrow> lsAudioLevel (PromptController_render c) = audioLevel c) \<and>
   (filtered c \<and> level c = 3 \<longrightarrow>
      haloScale (halo (LevelSelector_render (PromptController_render c))) = fl 1.6)"
proof -
  have span: "fsub (fl 2.2) 1 = 5404319552844596 / 4503599627370496"
    using halo_span by (simp only: MAX_HALO_SCALE_def MIN_HALO_SCALE_def)
  have zero: "lsLevel ls = 0 \<longrightarrow>
      haloScale (halo (LevelSelector_render ls)) = 1 \<and>
      haloDisplay (halo (LevelSelector_render ls)) = ''none''"
    by (simp add: halo_of_render renderScale_zero)
  have pos: "1 \<le> lsLevel ls \<longrightarrow>
      haloScale (halo (LevelSelector_render ls))
        = fadd (fadd 1 (fmul (fdiv (fsub (of_int (lsLevel ls)) 1) 4) (fsub (fl 2.2) 1)))
               (fmul (lsAudioLevel ls) 1) \<and>
      haloDisplay (halo (LevelSelector_render ls)) = ''block''"
    by (simp add: halo_of_render renderScale_pos_raw)
  have levels: "lsAudioLevel ls = 0 \<longrightarrow>
      (lsLevel ls = 1 \<longrightarrow> haloScale (halo (LevelSelector_render ls)) = 1) \<and>
      (lsLevel ls = 2 \<longrightarrow> haloScale (halo (LevelSelector_render ls)) = fl 1.3) \<and>
      (lsLevel ls = 3 \<longrightarrow> haloScale (halo (LevelSelector_render ls)) = fl 1.6) \<and>
      (lsLevel ls = 4 \<longrightarrow>
         haloScale (halo (LevelSelector_render ls)) = fl 1.9000000000000001) \<and>
      (lsLevel ls = 5 \<longrightarrow> haloScale (halo (LevelSelector_render ls)) = fl 2.2)"
    using halo_scale_level1 [of ls] halo_scale_level2 [of ls] halo_scale_level3 [of ls]
      halo_scale_level4 [of ls] halo_scale_level5 [of ls]
    by blast
  have filt: "filtered c \<longrightarrow> lsAudioLevel (PromptController_render c) = 0"
    and unfilt: "\<not> filtered c \<longrightarrow> lsAudioLevel (PromptController_render c) = audioLevel c"
    by (simp_all add: render_of_controller)
  have three: "filtered c \<and> level c = 3 \<longrightarrow>
      haloScale (halo (LevelSelector_render (PromptController_render c))) = fl 1.6"
    using halo_scale_level3 [of "PromptController_render c"]
    by (simp add: render_of_controller)
  show ?thesis
    using zero pos span fl_12 levels filt unfilt three by blast
qed


theorem halo_scale_witness:
  "filtered filteredController \<and>
   audioLevel filteredController = 8106479329266893 / 9007199254740992 \<and>
   level filteredController = 3 \<and>
   haloScale (halo (LevelSelector_render (PromptController_render filteredController)))
     = fl 1.6 \<and>
   lsAudioLevel \<lparr>lsLevel = 4, lsColor = ''#9900ff'', lsAudioLevel = 0\<rparr> = 0 \<and>
   lsLevel \<lparr>lsLevel = 4, lsColor = ''#9900ff'', lsAudioLevel = 0\<rparr> = 4 \<and>
   haloScale (halo (LevelSelector_render \<lparr>lsLevel = 4, lsColor = ''#9900ff'', lsAudioLevel = 0\<rparr>))
     = fl 1.9000000000000001 \<and>
   lsLevel \<lparr>lsLevel = 0, lsColor = ''#9900ff'', lsAudioLevel = 1\<rparr> = 0 \<and>
   haloScale (halo (LevelSelector_render \<lparr>lsLevel = 0, lsColor = ''#9900ff'', lsAudioLevel = 1\<rparr>))
     = 1 \<and>
   haloDisplay (halo (LevelSelector_render \<lparr>lsLevel = 0, lsColor = ''#9900ff'', lsAudioLevel = 1\<rparr>))
     = ''none''"
proof -
  have a: "lsAudioLevel \<lparr>lsLevel = 4, lsColor = ''#9900ff'', lsAudioLevel = 0\<rparr> = 0"
    and b: "lsLevel \<lparr>lsLevel = 4, lsColor = ''#9900ff'', lsAudioLevel = 0\<rparr> = 4"
    and z: "lsLevel \<lparr>lsLevel = 0, lsColor = ''#9900ff'', lsAudioLevel = 1\<rparr> = 0"
    by simp_all
  show ?thesis
    using halo_scale [of "\<lparr>lsLevel = 4, lsColor = ''#9900ff'', lsAudioLevel = 0\<rparr>"
        filteredController]
      halo_scale [of "\<lparr>lsLevel = 0, lsColor = ''#9900ff'', lsAudioLevel = 1\<rparr>"
        filteredController]
      a b z filteredController_fields level_filteredController
    by blast
qed

lemma level_levelChanged:
  "level (levelChanged (LevelChanged l) c) = l"
  by (simp add: levelChanged_def level_updateLevel)

text \<open>
  C10. The level selector renders the dots 1..5. Clicking dot L dispatches
  \<open>level-changed\<close> with 0 when L is the current level and with L otherwise, and the
  prompt controller's handler for that event leaves the prompt at that level.
\<close>

theorem dot_click:
  "map dotIndex (dots (LevelSelector_render ls)) = [1, 2, 3, 4, 5] \<and>
   (\<forall>d \<in> set (dots (LevelSelector_render ls)).
      dotClick d = LevelChanged (if lsLevel ls = dotIndex d then 0 else dotIndex d)) \<and>
   (\<forall>L \<in> {1..5}.
      dotClick (renderDot ls L) = LevelChanged (if lsLevel ls = L then 0 else L)) \<and>
   (\<forall>L \<in> {1..5}.
      level (levelChanged (dotClick (renderDot (PromptController_render c) L)) c)
        = (if level c = L then 0 else L))"
proof (intro conjI ballI)
  show "map dotIndex (dots (LevelSelector_render ls)) = [1, 2, 3, 4, 5]"
    by (simp add: LevelSelector_render_def renderDot_def)
next
  fix d assume "d \<in> set (dots (LevelSelector_render ls))"
  then show "dotClick d = LevelChanged (if lsLevel ls = dotIndex d then 0 else dotIndex d)"
    by (auto simp add: LevelSelector_render_def renderDot_def selectLevel_def)
next
  fix L :: int
  show "dotClick (renderDot ls L) = LevelChanged (if lsLevel ls = L then 0 else L)"
    by (simp add: renderDot_def selectLevel_def)
next
  fix L :: int
  show "level (levelChanged (dotClick (renderDot (PromptController_render c) L)) c)
        = (if level c = L then 0 else L)"
    by (simp add: renderDot_def selectLevel_def level_levelChanged render_of_controller)
qed

theorem dot_click_witness:
  "(3::int) \<in> {1..5} \<and> (4::int) \<in> {1..5} \<and> level sampleController = 3 \<and>
   dotClick (renderDot (PromptController_render sampleController) 3) = LevelChanged 0 \<and>
   dotClick (renderDot (PromptController_render sampleController) 4) = LevelChanged 4 \<and>
   level (levelChanged (dotClick (renderDot (PromptController_render sampleController) 3))
            sampleController) = 0 \<and>
   level (levelChanged (dotClick (renderDot (PromptController_render sampleController) 4))
            sampleController) = 4"
proof -
  note t = dot_click [of "PromptController_render sampleController" sampleController]
  have l: "level sampleController = 3" by (simp add: sampleController_def level_def)
  have m: "(3::int) \<in> {1..5}" "(4::int) \<in> {1..5}" by simp_all
  have a: "\<forall>L \<in> {1..5}. dotClick (renderDot (PromptController_render sampleController) L)
             = LevelChanged (if lsLevel (PromptController_render sampleController) = L then 0 else L)"
    using t by blast
  have b: "\<forall>L \<in> {1..5}.
      level (levelChanged (dotClick (renderDot (PromptController_render sampleController) L))
        sampleController) = (if level sampleController = L then 0 else L)"
    using t by blast
  show ?thesis
    using bspec [OF a m(1)] bspec [OF a m(2)] bspec [OF b m(1)] bspec [OF b m(2)] l
    by (simp add: render_of_controller)
qed

section \<open>The drag session\<close>

lemma handlePointerMove_keeps:
  "dispatched (handlePointerMove g e c) = dispatched c"
  "isDragging (handlePointerMove g e c) = isDragging c"
  "windowPointerMove (handlePointerMove g e c) = windowPointerMove c"
  "windowPointerUp (handlePointerMove g e c) = windowPointerUp c"
  by (simp_all add: handlePointerMove_def Let_def split: option.split prod.split)

lemma handlePointerUp_dragging:
  assumes "isDragging c"
  shows "dispatched (handlePointerUp c) = dispatched c @ [PromptChanged (prompt c)]"
    and "\<not> isDragging (handlePointerUp c)"
    and "\<not> windowPointerMove (handlePointerUp c)"
    and "\<not> windowPointerUp (handlePointerUp c)"
    and "prompt (handlePointerUp c) = prompt c"
  using assms by (simp_all add: handlePointerUp_def dispatchPromptChange_def)

lemma disconnectedCallback_releases:
  "dispatched (disconnectedCallback c) = dispatched c"
  "\<not> hostPointerDown (disconnectedCallback c)"
  "\<not> windowPointerMove (disconnectedCallback c)"
  "\<not> windowPointerUp (disconnectedCallback c)"
  by (simp_all add: disconnectedCallback_def)

lemma deliver_unregistered:
  assumes "\<not> hostPointerDown c" "\<not> windowPointerMove c" "\<not> windowPointerUp c"
  shows "dispatched (deliver i c) = dispatched c \<and> \<not> hostPointerDown (deliver i c) \<and>
         \<not> windowPointerMove (deliver i c) \<and> \<not> windowPointerUp (deliver i c)"
  using assms by (cases i) (simp_all add: disconnectedCallback_def)

lemma run_unregistered:
  "\<not> hostPointerDown c \<Longrightarrow> \<not> windowPointerMove c \<Longrightarrow> \<not> windowPointerUp c \<Longrightarrow>
   dispatched (run ins c) = dispatched c"
proof (induction ins arbitrary: c)
  case Nil
  then show ?case by (simp add: run_def)
next
  case (Cons i ins)
  note d = deliver_unregistered [OF Cons.prems, of i]
  have "dispatched (run ins (deliver i c)) = dispatched (deliver i c)"
    using d by (intro Cons.IH) simp_all
  then show ?case using d by (simp add: run_def)
qed

lemma run_moves:
  "isDragging c \<Longrightarrow> windowPointerMove c \<Longrightarrow> windowPointerUp c \<Longrightarrow>
   dispatched (run (moves ms) c) = dispatched c \<and>
   isDragging (run (moves ms) c) \<and>
   windowPointerMove (run (moves ms) c) \<and>
   windowPointerUp (run (moves ms) c)"
proof (induction ms arbitrary: c)
  case Nil
  then show ?case by (simp add: run_def)
next
  case (Cons m ms)
  obtain g e where m: "m = (g, e)" by (cases m)
  let ?c = "handlePointerMove g e c"
  have step: "run (moves (m # ms)) c = run (moves ms) ?c"
    using Cons.prems by (simp add: run_def m)
  have "isDragging ?c" "windowPointerMove ?c" "windowPointerUp ?c"
    using Cons.prems by (simp_all add: handlePointerMove_keeps)
  from Cons.IH [OF this] show ?case
    by (simp only: step handlePointerMove_keeps)
qed

lemma handlePointerDown_starts:
  assumes "\<not> onControl e"
  shows "isDragging (handlePointerDown e c)" "windowPointerMove (handlePointerDown e c)"
    "windowPointerUp (handlePointerDown e c)" "dispatched (handlePointerDown e c) = dispatched c"
  using assms by (simp_all add: handlePointerDown_def)

lemma run_append: "run (xs @ ys) c = run ys (run xs c)"
  by (simp add: run_def)

lemma run_Cons: "run (x # xs) c = run xs (deliver x c)"
  by (simp add: run_def)

lemma session_up:
  assumes "hostPointerDown c" "\<not> onControl e0"
  shows "dispatched (run (PointerDown e0 # moves ms @ [PointerUp]) c)
         = dispatched c @
           [PromptChanged (prompt (run (PointerDown e0 # moves ms) c))]"
proof -
  let ?d = "handlePointerDown e0 c"
  let ?m = "run (moves ms) ?d"
  note s = handlePointerDown_starts [OF assms(2), of c]
  note r = run_moves [OF s(1,2,3), of ms]
  have "run (PointerDown e0 # moves ms @ [PointerUp]) c
        = handlePointerUp ?m"
    using assms(1) r by (simp add: run_Cons run_append) (simp add: run_def)
  moreover have "run (PointerDown e0 # moves ms) c = ?m"
    using assms(1) by (simp add: run_Cons)
  moreover have "dispatched (handlePointerUp ?m) = dispatched ?m @ [PromptChanged (prompt ?m)]"
    using r by (simp add: handlePointerUp_dragging)
  ultimately show ?thesis using r s(4) by simp
qed

lemma session_disconnect:
  assumes "hostPointerDown c" "\<not> onControl e0"
  shows "dispatched (run (PointerDown e0 # moves ms @ Disconnect # ins) c)
         = dispatched c"
proof -
  let ?d = "handlePointerDown e0 c"
  let ?m = "run (moves ms) ?d"
  note s = handlePointerDown_starts [OF assms(2), of c]
  note r = run_moves [OF s(1,2,3), of ms]
  have "run (PointerDown e0 # moves ms @ Disconnect # ins) c
        = run ins (disconnectedCallback ?m)"
    using assms(1) by (simp add: run_Cons run_append)
  moreover have "dispatched (run ins (disconnectedCallback ?m)) = dispatched (disconnectedCallback ?m)"
    by (rule run_unregistered) (simp_all add: disconnectedCallback_releases)
  ultimately show ?thesis using r s(4) by (simp add: disconnectedCallback_releases)
qed


text \<open>
  C9. While a drag is active, a pointer move stores the constrained position and
  dispatches nothing; pointer up dispatches exactly one \<open>prompt-changed\<close>, carrying the
  prompt as the last move left it, and ends the drag; removing the component releases the
  two window listeners and dispatches nothing, and nothing that arrives afterwards is
  dispatched either. For a whole gesture: pointer down outside the controls, any number of
  moves, then pointer up gives one notification; pointer down, moves, then removal gives
  none.
\<close>

theorem drag_session:
  "(isDragging c \<and> windowPointerMove c \<and> windowPointerUp c \<longrightarrow>
      (dispatched (deliver (PointerMove g e) c) = dispatched c \<and>
       isDragging (deliver (PointerMove g e) c) \<and>
       (parentElement g = Some (pw, ph) \<longrightarrow>
          posX (prompt (deliver (PointerMove g e) c))
            = constrain (of_int (offsetWidth g) / 2) (of_int pw) (requestedX e c) \<and>
          posY (prompt (deliver (PointerMove g e) c))
            = constrain (of_int (offsetHeight g) / 2) (of_int ph) (requestedY e c))) \<and>
      (dispatched (deliver PointerUp c) = dispatched c @ [PromptChanged (prompt c)] \<and>
       \<not> isDragging (deliver PointerUp c) \<and>
       \<not> windowPointerMove (deliver PointerUp c) \<and>
       \<not> windowPointerUp (deliver PointerUp c)) \<and>
      (dispatched (deliver Disconnect c) = dispatched c \<and>
       \<not> windowPointerMove (deliver Disconnect c) \<and>
       \<not> windowPointerUp (deliver Disconnect c) \<and>
       dispatched (run ins (deliver Disconnect c)) = dispatched c)) \<and>
   (hostPointerDown c \<and> \<not> onControl e0 \<longrightarrow>
      dispatched (run (PointerDown e0 # moves ms @ [PointerUp]) c)
        = dispatched c @ [PromptChanged (prompt (run (PointerDown e0 # moves ms) c))] \<and>
      dispatched (run (PointerDown e0 # moves ms @ Disconnect # ins) c) = dispatched c)"
proof (intro conjI impI)
  assume a: "isDragging c \<and> windowPointerMove c \<and> windowPointerUp c"
  then have d: "isDragging c" and m: "windowPointerMove c" and u: "windowPointerUp c"
    by simp_all
  show "dispatched (deliver (PointerMove g e) c) = dispatched c"
    using m by (simp add: handlePointerMove_keeps)
  show "isDragging (deliver (PointerMove g e) c)"
    using m d by (simp add: handlePointerMove_keeps)
  show "dispatched (deliver PointerUp c) = dispatched c @ [PromptChanged (prompt c)]"
    using u by (simp add: handlePointerUp_dragging [OF d])
  show "\<not> isDragging (deliver PointerUp c)"
    using u by (simp add: handlePointerUp_dragging [OF d])
  show "\<not> windowPointerMove (deliver PointerUp c)"
    using u by (simp add: handlePointerUp_dragging [OF d])
  show "\<not> windowPointerUp (deliver PointerUp c)"
    using u by (simp add: handlePointerUp_dragging [OF d])
  show "dispatched (deliver Disconnect c) = dispatched c"
    by (simp add: disconnectedCallback_releases)
  show "\<not> windowPointerMove (deliver Disconnect c)"
    by (simp add: disconnectedCallback_releases)
  show "\<not> windowPointerUp (deliver Disconnect c)"
    by (simp add: disconnectedCallback_releases)
  have "dispatched (run ins (disconnectedCallback c)) = dispatched (disconnectedCallback c)"
    by (rule run_unregistered) (simp_all add: disconnectedCallback_releases)
  then show "dispatched (run ins (deliver Disconnect c)) = dispatched c"
    by (simp add: disconnectedCallback_releases)
  {
    assume p: "parentElement g = Some (pw, ph)"
    show "posX (prompt (deliver (PointerMove g e) c))
            = constrain (of_int (offsetWidth g) / 2) (of_int pw) (requestedX e c)"
      using m by (simp add: handlePointerMove_posX [OF d p])
    show "posY (prompt (deliver (PointerMove g e) c))
            = constrain (of_int (offsetHeight g) / 2) (of_int ph) (requestedY e c)"
      using m by (simp add: handlePointerMove_posY [OF d p])
  }
next
  assume a: "hostPointerDown c \<and> \<not> onControl e0"
  show "dispatched (run (PointerDown e0 # moves ms @ [PointerUp]) c)
        = dispatched c @ [PromptChanged (prompt (run (PointerDown e0 # moves ms) c))]"
    using a by (intro session_up) simp_all
  show "dispatched (run (PointerDown e0 # moves ms @ Disconnect # ins) c) = dispatched c"
    using a by (intro session_disconnect) simp_all
qed

theorem drag_session_witness:
  "isDragging sampleController \<and> windowPointerMove sampleController \<and>
   windowPointerUp sampleController \<and> hostPointerDown sampleController \<and>
   \<not> onControl sampleMove \<and> parentElement sampleLayout = Some (1000, 1000) \<and>
   dispatched (deliver (PointerMove sampleLayout sampleMove) sampleController) = [] \<and>
   posX (prompt (deliver (PointerMove sampleLayout sampleMove) sampleController)) = 950 \<and>
   dispatched (deliver PointerUp sampleController) = [PromptChanged (prompt sampleController)] \<and>
   dispatched (deliver Disconnect sampleController) = [] \<and>
   dispatched (run [PointerUp] (deliver Disconnect sampleController)) = [] \<and>
   dispatched (run (PointerDown sampleMove # moves [(sampleLayout, sampleMoveBack)] @ [PointerUp])
                 sampleController)
     = [PromptChanged (prompt (run (PointerDown sampleMove # moves [(sampleLayout, sampleMoveBack)])
                                  sampleController))] \<and>
   dispatched (run (PointerDown sampleMove # moves [(sampleLayout, sampleMoveBack)]
                      @ Disconnect # [PointerUp]) sampleController) = []"
proof -
  have h: "isDragging sampleController \<and> windowPointerMove sampleController \<and>
      windowPointerUp sampleController"
    and k: "hostPointerDown sampleController \<and> \<not> onControl sampleMove"
    and p: "parentElement sampleLayout = Some (1000, 1000)"
    and z: "dispatched sampleController = []"
    by (simp_all add: sampleController_def sampleMove_def sampleLayout_def)
  have r: "constrain (of_int (offsetWidth sampleLayout) / 2) (of_int 1000)
             (requestedX sampleMove sampleController) = 950"
    by (simp add: constrain_def requestedX_def sampleController_def sampleMove_def
        sampleLayout_def)
  note t = drag_session [of sampleController sampleLayout sampleMove 1000 1000 "[PointerUp]"
      sampleMove "[(sampleLayout, sampleMoveBack)]"]
  show ?thesis
    using t h k p z r by simp
qed

section \<open>Adding and removing prompts\<close>

lemma handleAddPrompt_present: "txt = [] \<or> has txt (prompts s) \<Longrightarrow> handleAddPrompt txt w h s = s"
  by (simp add: handleAddPrompt_def)

lemma handleAddPrompt_fresh:
  assumes "txt \<noteq> []" "\<not> has txt (prompts s)" "find (\<lambda>p. dpText p = txt) (allPrompts s) = Some d"
  shows "prompts (handleAddPrompt txt w h s)
         = AList.update txt
             \<lparr>promptId = txt, promptText = txt, weight = 0, cc = nextCC s, color = dpColor d,
              posX = of_int w / 2, posY = of_int h / 2\<rparr> (prompts s)"
    and "nextCC (handleAddPrompt txt w h s) = nextCC s + 1"
  using assms by (simp_all add: handleAddPrompt_def Let_def dispatchPromptsChanged_def)

lemma handlePromptRemoved_fields:
  "prompts (handlePromptRemoved k s) = AList.delete k (prompts s)"
  "nextCC (handlePromptRemoved k s) = nextCC s"
  "allPrompts (handlePromptRemoved k s) = allPrompts s"
  by (simp_all add: handlePromptRemoved_def Let_def dispatchPromptsChanged_def)

lemma handlePromptChanged_nextCC: "nextCC (handlePromptChanged q s) = nextCC s"
  by (simp add: handlePromptChanged_def dispatchPromptsChanged_def)

lemma handleAddPrompt_nextCC: "nextCC s \<le> nextCC (handleAddPrompt txt w h s)"
  by (simp add: handleAddPrompt_def Let_def dispatchPromptsChanged_def split: option.split)

lemma not_has_delete: "\<not> has k (AList.delete k al)"
  by (simp add: has_def delete_conv')

lemma remove_then_add:
  assumes "name \<noteq> []" "find (\<lambda>d. dpText d = name) (allPrompts s) = Some d"
  shows "map_of (prompts (handleAddPrompt name w h (handlePromptRemoved name s))) name
         = Some \<lparr>promptId = name, promptText = name, weight = 0, cc = nextCC s,
                 color = dpColor d, posX = of_int w / 2, posY = of_int h / 2\<rparr>"
proof -
  let ?r = "handlePromptRemoved name s"
  have "\<not> has name (prompts ?r)" by (simp add: handlePromptRemoved_fields not_has_delete)
  moreover have "find (\<lambda>d. dpText d = name) (allPrompts ?r) = Some d"
    using assms(2) by (simp add: handlePromptRemoved_fields)
  ultimately show ?thesis
    using assms(1) by (simp add: handleAddPrompt_fresh update_conv' handlePromptRemoved_fields)
qed


lemma grownCollection_eval:
  "prompts grownCollection
     = [(''Bass'', \<lparr>promptId = ''Bass'', promptText = ''Bass'', weight = 0, cc = 0,
          color = ''#9900ff'', posX = 500, posY = 300\<rparr>)]"
  "nextCC grownCollection = 1"
  "allPrompts grownCollection = samplePalette"
  by (simp_all add: grownCollection_def handleAddPrompt_def PromptDjMidi_new_def has_def
      samplePalette_def getAvailablePrompts_def dispatchPromptsChanged_def Let_def)

lemma seededCollection_eval:
  "prompts seededCollection = [(''Bass'', prompt sampleController)]"
  "nextCC seededCollection = 0"
  "allPrompts seededCollection = samplePalette"
  by (simp_all add: seededCollection_def PromptDjMidi_new_def Let_def)

lemma find_Bass: "find (\<lambda>d. dpText d = ''Bass'') samplePalette = Some \<lparr>dpColor = ''#9900ff'', dpText = ''Bass''\<rparr>"
  by (simp add: samplePalette_def)

text \<open>
  C5. \<open>handleAddPrompt\<close> returns the state as it was when the selected name is empty or
  already a key of the map. So in every collection that has a prompt under ``Bass'',
  adding ``Bass'' again leaves the number of prompts, the prompt stored under ``Bass''
  (its \<open>cc\<close> with it) and the counter as they were.
\<close>

theorem add_present_is_noop:
  "(txt = [] \<or> has txt (prompts s) \<longrightarrow> handleAddPrompt txt w h s = s) \<and>
   (map_of (prompts s) ''Bass'' = Some p \<longrightarrow>
      length (prompts (handleAddPrompt ''Bass'' w h s)) = length (prompts s) \<and>
      map_of (prompts (handleAddPrompt ''Bass'' w h s)) ''Bass'' = Some p \<and>
      map_option cc (map_of (prompts (handleAddPrompt ''Bass'' w h s)) ''Bass'') = Some (cc p) \<and>
      nextCC (handleAddPrompt ''Bass'' w h s) = nextCC s)"
proof (intro conjI impI)
  assume "txt = [] \<or> has txt (prompts s)"
  then show "handleAddPrompt txt w h s = s" by (rule handleAddPrompt_present)
next
  assume b: "map_of (prompts s) ''Bass'' = Some p"
  then have "has ''Bass'' (prompts s)" by (simp add: has_def)
  then have n: "handleAddPrompt ''Bass'' w h s = s" by (simp add: handleAddPrompt_present)
  show "length (prompts (handleAddPrompt ''Bass'' w h s)) = length (prompts s)"
    by (simp add: n)
  show "map_of (prompts (handleAddPrompt ''Bass'' w h s)) ''Bass'' = Some p"
    using b by (simp add: n)
  show "map_option cc (map_of (prompts (handleAddPrompt ''Bass'' w h s)) ''Bass'') = Some (cc p)"
    using b by (simp add: n)
  show "nextCC (handleAddPrompt ''Bass'' w h s) = nextCC s"
    by (simp add: n)
qed

theorem add_present_is_noop_witness:
  "has ''Bass'' (prompts grownCollection) \<and>
   handleAddPrompt ''Bass'' 800 400 grownCollection = grownCollection \<and>
   handleAddPrompt [] 800 400 grownCollection = grownCollection \<and>
   length (prompts (handleAddPrompt ''Bass'' 800 400 grownCollection)) = 1 \<and>
   map_option cc (map_of (prompts (handleAddPrompt ''Bass'' 800 400 grownCollection)) ''Bass'')
     = Some 0"
proof -
  let ?p = "\<lparr>promptId = ''Bass'', promptText = ''Bass'', weight = 0, cc = 0,
          color = ''#9900ff'', posX = 500, posY = 300\<rparr>"
  have b: "map_of (prompts grownCollection) ''Bass'' = Some ?p"
    by (simp add: grownCollection_eval)
  have k: "has ''Bass'' (prompts grownCollection)"
    by (simp add: has_def b)
  have l: "length (prompts grownCollection) = 1"
    by (simp add: grownCollection_eval)
  show ?thesis
    using add_present_is_noop [of "''Bass''" grownCollection 800 400 ?p]
      add_present_is_noop [of "[]" grownCollection 800 400 ?p] b k l
    by simp
qed

text \<open>
  C6, as stated, fails for a prompt the collection was constructed with: the counter
  starts at 0 whatever the initial map holds, so removing the seeded ``Bass'' (cc 0) and
  adding ``Bass'' again gives cc 0 once more, not a greater one.
\<close>

theorem readd_seeded_counterexample:
  "map_option cc (map_of (prompts seededCollection) ''Bass'') = Some 0 \<and>
   map_option cc
     (map_of (prompts (handleAddPrompt ''Bass'' 1000 600
                         (handlePromptRemoved ''Bass'' seededCollection))) ''Bass'') = Some 0 \<and>
   \<not> ((0::int) < 0)"
  by (simp add: remove_then_add [OF _ find_Bass [folded seededCollection_eval(3)]] seededCollection_eval
      sampleController_def)

text \<open>
  C6, amended. No operation of the collection decreases the counter, and a prompt created
  by \<open>handleAddPrompt\<close> gets the counter's value as its \<open>cc\<close>, which is below the counter
  from then on. For every prompt whose \<open>cc\<close> is below the counter, removing it and adding a
  prompt under the same name (non-empty and in the palette) gives the new prompt a strictly
  greater \<open>cc\<close>.
\<close>

theorem readd_gets_greater_cc:
  "(map_of (prompts s) name = Some p \<and> cc p < nextCC s \<and> name \<noteq> [] \<and>
    find (\<lambda>d. dpText d = name) (allPrompts s) = Some d \<longrightarrow>
      (\<exists>p'. map_of (prompts (handleAddPrompt name w h (handlePromptRemoved name s))) name
               = Some p' \<and> cc p' = nextCC s \<and> cc p < cc p')) \<and>
   (txt \<noteq> [] \<and> \<not> has txt (prompts s) \<and>
    find (\<lambda>d. dpText d = txt) (allPrompts s) = Some d' \<longrightarrow>
      (\<exists>q. map_of (prompts (handleAddPrompt txt w h s)) txt = Some q \<and> cc q = nextCC s \<and>
            cc q < nextCC (handleAddPrompt txt w h s))) \<and>
   nextCC s \<le> nextCC (handleAddPrompt txt w h s) \<and>
   nextCC (handlePromptRemoved k s) = nextCC s \<and>
   nextCC (handlePromptChanged u s) = nextCC s"
proof (intro conjI impI)
  assume a: "map_of (prompts s) name = Some p \<and> cc p < nextCC s \<and> name \<noteq> [] \<and>
    find (\<lambda>d. dpText d = name) (allPrompts s) = Some d"
  then have "name \<noteq> []" and "find (\<lambda>d. dpText d = name) (allPrompts s) = Some d"
    by simp_all
  from remove_then_add [OF this, of w h] a
  show "\<exists>p'. map_of (prompts (handleAddPrompt name w h (handlePromptRemoved name s))) name
               = Some p' \<and> cc p' = nextCC s \<and> cc p < cc p'"
    by simp
next
  assume a: "txt \<noteq> [] \<and> \<not> has txt (prompts s) \<and>
    find (\<lambda>d. dpText d = txt) (allPrompts s) = Some d'"
  then have "txt \<noteq> []" "\<not> has txt (prompts s)"
    "find (\<lambda>d. dpText d = txt) (allPrompts s) = Some d'"
    by simp_all
  note f = handleAddPrompt_fresh [OF this, of w h]
  show "\<exists>q. map_of (prompts (handleAddPrompt txt w h s)) txt = Some q \<and> cc q = nextCC s \<and>
            cc q < nextCC (handleAddPrompt txt w h s)"
    by (simp add: f update_conv')
next
  show "nextCC s \<le> nextCC (handleAddPrompt txt w h s)" by (rule handleAddPrompt_nextCC)
  show "nextCC (handlePromptRemoved k s) = nextCC s" by (simp add: handlePromptRemoved_fields)
  show "nextCC (handlePromptChanged u s) = nextCC s" by (rule handlePromptChanged_nextCC)
qed

theorem readd_gets_greater_cc_witness:
  "map_option cc (map_of (prompts grownCollection) ''Bass'') = Some 0 \<and>
   (0::int) < nextCC grownCollection \<and> ''Bass'' \<noteq> [] \<and>
   find (\<lambda>d. dpText d = ''Bass'') (allPrompts grownCollection)
     = Some \<lparr>dpColor = ''#9900ff'', dpText = ''Bass''\<rparr> \<and>
   map_option cc
     (map_of (prompts (handleAddPrompt ''Bass'' 1000 600
                         (handlePromptRemoved ''Bass'' grownCollection))) ''Bass'') = Some 1 \<and>
   \<not> has ''Rain'' (prompts grownCollection) \<and>
   map_option cc (map_of (prompts (handleAddPrompt ''Rain'' 1000 600 grownCollection)) ''Rain'')
     = Some 1"
proof -
  let ?p = "\<lparr>promptId = ''Bass'', promptText = ''Bass'', weight = 0, cc = 0,
          color = ''#9900ff'', posX = 500, posY = 300\<rparr>"
  have b: "map_of (prompts grownCollection) ''Bass'' = Some ?p"
    and n: "nextCC grownCollection = 1"
    and f: "find (\<lambda>d. dpText d = ''Bass'') (allPrompts grownCollection)
              = Some \<lparr>dpColor = ''#9900ff'', dpText = ''Bass''\<rparr>"
    and g: "find (\<lambda>d. dpText d = ''Rain'') (allPrompts grownCollection)
              = Some \<lparr>dpColor = ''#5200ff'', dpText = ''Rain''\<rparr>"
    and r: "\<not> has ''Rain'' (prompts grownCollection)"
    by (simp_all add: grownCollection_eval samplePalette_def has_def)
  note t = readd_gets_greater_cc [of grownCollection "''Bass''" ?p
      "\<lparr>dpColor = ''#9900ff'', dpText = ''Bass''\<rparr>" 1000 600 "''Rain''"
      "\<lparr>dpColor = ''#5200ff'', dpText = ''Rain''\<rparr>"]
  show ?thesis
    using t b n f g r by auto
qed

section \<open>The background gradients\<close>

lemma alpha_at_full:
  "padStart2 (toString16 (round (fmul (fmul 1 (fl 0.4)) 255))) = ''66''"
  by code_simp

lemma alpha_saturated:
  assumes "1 \<le> weight p"
  shows "alpha p = ''66''"
proof -
  have "min (weight p) 1 = 1" using assms by simp
  then show ?thesis
    by (simp only: alpha_def alphaPct_def alpha_at_full)
qed

lemma gradient_fields:
  "gradAlpha (gradient r1 r2 p) = alpha p"
  "gradColor (gradient r1 r2 p) = color p"
  by (simp_all add: gradient_def Let_def)

lemma gradients_fields:
  "map gradAlpha (gradients rnd n ps) = map alpha ps"
  "map gradColor (gradients rnd n ps) = map color ps"
  by (induction ps arbitrary: n) (simp_all add: gradient_fields)

lemma makeBackground_prompts:
  "makeBackground rnd (s\<lparr>prompts := ps\<rparr>)
   = gradients rnd 0 (filter (\<lambda>p. weight p > 0) (map snd ps))"
  by (simp add: makeBackground_def)

lemma makeBackground_fields:
  "map gradAlpha (makeBackground rnd s) = map alpha (filter (\<lambda>p. 0 < weight p) (map snd (prompts s)))"
  "map gradColor (makeBackground rnd s) = map color (filter (\<lambda>p. 0 < weight p) (map snd (prompts s)))"
  by (simp_all add: makeBackground_def gradients_fields)

lemma makeBackground_single:
  assumes "1 \<le> weight p"
  shows "map gradAlpha (makeBackground rnd (s\<lparr>prompts := [(k, p)]\<rparr>)) = [''66'']"
proof -
  have "0 < weight p" using assms by simp
  then show ?thesis
    by (simp add: makeBackground_fields alpha_saturated [OF assms])
qed

text \<open>
  C8. A prompt of weight 0 contributes nothing to the background: the gradients are those
  of the collection without it, whatever its colour and position. The background has one
  gradient for each prompt of positive weight, in the map's order, with that prompt's
  colour and with the alpha digits of round ((min (weight, 1) * 0.4) * 255), products in
  binary64. These digits are ``66'' for every weight \<ge> 1, so the background of a prompt
  of weight 1 and that of the same prompt with weight 2 carry the same alpha.
\<close>

theorem background_alpha:
  "(weight p = 0 \<longrightarrow>
      makeBackground rnd (s\<lparr>prompts := ps @ (k, p) # qs\<rparr>)
        = makeBackground rnd (s\<lparr>prompts := ps @ qs\<rparr>)) \<and>
   map gradAlpha (makeBackground rnd s)
     = map alpha (filter (\<lambda>p. 0 < weight p) (map snd (prompts s))) \<and>
   map gradColor (makeBackground rnd s)
     = map color (filter (\<lambda>p. 0 < weight p) (map snd (prompts s))) \<and>
   alpha p = padStart2 (toString16 (round (fmul (fmul (min (weight p) 1) (fl 0.4)) 255))) \<and>
   (1 \<le> weight p \<longrightarrow> alpha p = ''66'') \<and>
   (1 \<le> weight p \<longrightarrow>
      map gradAlpha (makeBackground rnd (s\<lparr>prompts := [(k, p)]\<rparr>)) = [''66'']) \<and>
   map gradAlpha (makeBackground rnd (s\<lparr>prompts := [(k, p\<lparr>weight := 1\<rparr>)]\<rparr>)) = [''66''] \<and>
   map gradAlpha (makeBackground rnd' (s\<lparr>prompts := [(k, p\<lparr>weight := 2\<rparr>)]\<rparr>)) = [''66'']"
proof (intro conjI impI)
  assume "weight p = 0"
  then show "makeBackground rnd (s\<lparr>prompts := ps @ (k, p) # qs\<rparr>)
        = makeBackground rnd (s\<lparr>prompts := ps @ qs\<rparr>)"
    by (simp add: makeBackground_prompts)
next
  show "map gradAlpha (makeBackground rnd s)
     = map alpha (filter (\<lambda>p. 0 < weight p) (map snd (prompts s)))"
    by (rule makeBackground_fields)
  show "map gradColor (makeBackground rnd s)
     = map color (filter (\<lambda>p. 0 < weight p) (map snd (prompts s)))"
    by (rule makeBackground_fields)
  show "alpha p = padStart2 (toString16 (round (fmul (fmul (min (weight p) 1) (fl 0.4)) 255)))"
    by (simp only: alpha_def alphaPct_def)
  show "map gradAlpha (makeBackground rnd (s\<lparr>prompts := [(k, p\<lparr>weight := 1\<rparr>)]\<rparr>)) = [''66'']"
    by (rule makeBackground_single) simp
  show "map gradAlpha (makeBackground rnd' (s\<lparr>prompts := [(k, p\<lparr>weight := 2\<rparr>)]\<rparr>)) = [''66'']"
    by (rule makeBackground_single) simp
next
  assume "1 \<le> weight p"
  then show "alpha p = ''66''" by (rule alpha_saturated)
next
  assume "1 \<le> weight p"
  then show "map gradAlpha (makeBackground rnd (s\<lparr>prompts := [(k, p)]\<rparr>)) = [''66'']"
    by (rule makeBackground_single)
qed

lemma weightedCollection_active:
  "filter (\<lambda>p. 0 < weight p) (map snd (prompts weightedCollection))
   = [(prompt sampleController)\<lparr>weight := 1\<rparr>,
      (prompt sampleController)\<lparr>promptId := ''Drums'', promptText := ''Drums'',
                      cc := 2, color := ''#ff25f6'', weight := 2\<rparr>]"
  by (simp add: weightedCollection_def)

theorem background_alpha_witness:
  "map (\<lambda>kp. weight (snd kp)) (prompts weightedCollection) = [1, 0, 2] \<and>
   map gradAlpha (makeBackground (\<lambda>n. 1 / 2) weightedCollection) = [''66'', ''66''] \<and>
   map gradColor (makeBackground (\<lambda>n. 1 / 2) weightedCollection) = [''#9900ff'', ''#ff25f6''] \<and>
   makeBackground (\<lambda>n. 1 / 2)
     (weightedCollection\<lparr>prompts :=
        [] @ (''Rain'', (prompt sampleController)\<lparr>weight := 0\<rparr>) # []\<rparr>)
     = makeBackground (\<lambda>n. 1 / 2) (weightedCollection\<lparr>prompts := [] @ []\<rparr>)"
proof -
  let ?b = "(prompt sampleController)\<lparr>weight := 1\<rparr>"
  let ?d = "(prompt sampleController)\<lparr>promptId := ''Drums'', promptText := ''Drums'',
                      cc := 2, color := ''#ff25f6'', weight := 2\<rparr>"
  let ?r = "(prompt sampleController)\<lparr>weight := 0\<rparr>"
  have w: "map (\<lambda>kp. weight (snd kp)) (prompts weightedCollection) = [1, 0, 2]"
    by (simp add: weightedCollection_def)
  have hb: "1 \<le> weight ?b" and hd: "1 \<le> weight ?d" and hr: "weight ?r = 0"
    by simp_all
  note tb = background_alpha [where p = ?b and s = weightedCollection and rnd = "\<lambda>n. 1 / 2"]
  note td = background_alpha [where p = ?d]
  note tr = background_alpha [where p = ?r and s = weightedCollection and rnd = "\<lambda>n. 1 / 2"
      and ps = "[]" and qs = "[]" and k = "''Rain''"]
  have ab: "alpha ?b = ''66''" using tb hb by blast
  have ad: "alpha ?d = ''66''" using td hd by blast
  have al: "map gradAlpha (makeBackground (\<lambda>n. 1 / 2) weightedCollection) = [''66'', ''66'']"
    using tb by (simp only: weightedCollection_active list.map ab ad)
  have co: "map gradColor (makeBackground (\<lambda>n. 1 / 2) weightedCollection)
              = [''#9900ff'', ''#ff25f6'']"
    using tb by (simp add: weightedCollection_active sampleController_def)
  have ex: "makeBackground (\<lambda>n. 1 / 2)
     (weightedCollection\<lparr>prompts := [] @ (''Rain'', ?r) # []\<rparr>)
     = makeBackground (\<lambda>n. 1 / 2) (weightedCollection\<lparr>prompts := [] @ []\<rparr>)"
    using tr hr by blast
  show ?thesis using w al co ex by blast
qed

end
